theory Spec2Isabelle
  imports Complex_Main
begin

section \<open>Errors and sequencing\<close>

text \<open>
  Every Python exception the module can raise is a value.  The assertions of the
  source carry their message, which tells them apart: the dimension checks
  (the spec's DimensionError), the check that \<open>C0[1,0]\<close> is real, and the count of
  finite eigenvalues (the spec's InvariantViolationError).
\<close>

datatype error =
    AssertionError string
  | NameError string
  | AttributeError
  | TypeError
  | IndexError
  | ValueError
  | AxisError
  | LinAlgError

definition bindE :: "error + 'a \<Rightarrow> ('a \<Rightarrow> error + 'b) \<Rightarrow> error + 'b" where
  "bindE m f = (case m of Inl e \<Rightarrow> Inl e | Inr v \<Rightarrow> f v)"

definition py_assert :: "bool \<Rightarrow> string \<Rightarrow> error + unit" where
  "py_assert b msg = (if b then Inr () else Inl (AssertionError msg))"

section \<open>The numerical library\<close>

text \<open>
  The arithmetic of numpy is a parameter of the model: \<open>'c\<close> is the type of the
  complex scalars of an array, \<open>'r\<close> the type of its real scalars.  A theorem stated
  for every such record holds whatever the rounding of the floating-point unit is.
\<close>

record ('c, 'r) numpy =
  r_lit :: "real \<Rightarrow> 'r"
  c_lit :: "complex \<Rightarrow> 'c"
  c_of_r :: "'r \<Rightarrow> 'c"
  c_add :: "'c \<Rightarrow> 'c \<Rightarrow> 'c"
  c_sub :: "'c \<Rightarrow> 'c \<Rightarrow> 'c"
  c_mul :: "'c \<Rightarrow> 'c \<Rightarrow> 'c"
  c_div :: "'c \<Rightarrow> 'c \<Rightarrow> 'c"
  c_neg :: "'c \<Rightarrow> 'c"
  c_conj :: "'c \<Rightarrow> 'c"
  c_sqrt :: "'c \<Rightarrow> 'c"
  c_exp :: "'c \<Rightarrow> 'c"
  c_abs :: "'c \<Rightarrow> 'r"
  c_angle :: "'c \<Rightarrow> 'r"
  c_imag :: "'c \<Rightarrow> 'r"
  c_isfinite :: "'c \<Rightarrow> bool"
  r_mul :: "'r \<Rightarrow> 'r \<Rightarrow> 'r"
  r_div :: "'r \<Rightarrow> 'r \<Rightarrow> 'r"
  r_sqrt :: "'r \<Rightarrow> 'r"
  r_abs :: "'r \<Rightarrow> 'r"
  r_less :: "'r \<Rightarrow> 'r \<Rightarrow> bool"
  r_isfinite :: "'r \<Rightarrow> bool"
  linalg_norm :: "'c list \<Rightarrow> 'r"

subsection \<open>Arrays with a shape\<close>

text \<open>
  An n-dimensional array is its shape and its elements in row-major order.
  \<open>len\<close> is the length of the first axis and raises TypeError on a 0-d array;
  \<open>flatten\<close> keeps the elements and forgets the shape.
\<close>

datatype 'a ndarray = NDArray (shape: "nat list") (data: "'a list")

definition wf_ndarray :: "'a ndarray \<Rightarrow> bool" where
  "wf_ndarray a = (length (data a) = prod_list (shape a))"

definition array1 :: "'a list \<Rightarrow> 'a ndarray" where
  "array1 xs = NDArray [length xs] xs"

definition py_len :: "'a ndarray \<Rightarrow> error + nat" where
  "py_len a = (case shape a of [] \<Rightarrow> Inl TypeError | d # _ \<Rightarrow> Inr d)"

definition flatten :: "'a ndarray \<Rightarrow> 'a list" where
  "flatten a = data a"

definition np_prod :: "('c, 'r) numpy \<Rightarrow> 'c list \<Rightarrow> 'c" where
  "np_prod np xs = foldl (c_mul np) (c_lit np 1) xs"

section \<open>LagrangePolynomialBasis\<close>

record 'c LagrangePolynomialBasis =
  self_nodes :: "'c list"
  self_weights :: "'c list"

text \<open>
  \<open>__init__\<close>: the nodes are flattened, the assertion compares the length of the
  input with the length of the flattened array, and the weights are
  \<open>1. / (prod(nodes[k] - nodes[0:k]) * prod(nodes[k] - nodes[k+1:]))\<close>.
\<close>

definition weight_denominator :: "('c, 'r) numpy \<Rightarrow> 'c list \<Rightarrow> nat \<Rightarrow> 'c" where
  "weight_denominator np ns k =
     c_mul np (np_prod np (map (\<lambda>x. c_sub np (ns ! k) x) (take k ns)))
              (np_prod np (map (\<lambda>x. c_sub np (ns ! k) x) (drop (k + 1) ns)))"

definition init :: "('c, 'r) numpy \<Rightarrow> 'c ndarray \<Rightarrow> error + 'c LagrangePolynomialBasis" where
  "init np nodes =
     (let ns = flatten nodes in
      bindE (py_len nodes) (\<lambda>l.
      bindE (py_assert (l = length ns) ''Input must be one-dimensional'') (\<lambda>_.
      Inr \<lparr> self_nodes = ns,
            self_weights = map (\<lambda>k. c_div np (c_lit np 1) (weight_denominator np ns k))
                               [0 ..< length ns] \<rparr>)))"

section \<open>Exact arithmetic\<close>

text \<open>
  The idealised instance of the numerical library: scalars are exact complex and real
  numbers, and \<open>None\<close> stands for every non-finite value (inf or nan).  A division by
  zero gives a non-finite value, an operation on a non-finite value gives one, and a
  comparison with one is false.  \<open>np.angle\<close> is the principal argument, in
  \<open>(-pi, pi]\<close>, with \<open>angle(0) = 0\<close>.
\<close>

fun lift2 :: "('a \<Rightarrow> 'b \<Rightarrow> 'd) \<Rightarrow> 'a option \<Rightarrow> 'b option \<Rightarrow> 'd option" where
  "lift2 f (Some a) (Some b) = Some (f a b)"
| "lift2 f _ _ = None"

fun xdiv :: "('a :: field) option \<Rightarrow> 'a option \<Rightarrow> 'a option" where
  "xdiv (Some a) (Some b) = (if b = 0 then None else Some (a / b))"
| "xdiv _ _ = None"

fun xsqrt :: "real option \<Rightarrow> real option" where
  "xsqrt (Some a) = (if a < 0 then None else Some (sqrt a))"
| "xsqrt None = None"

fun xless :: "real option \<Rightarrow> real option \<Rightarrow> bool" where
  "xless (Some a) (Some b) = (a < b)"
| "xless _ _ = False"

definition xnorm :: "complex option list \<Rightarrow> real option" where
  "xnorm xs = xsqrt (foldr (lift2 (+)) (map (map_option (\<lambda>z. (cmod z)\<^sup>2)) xs) (Some 0))"

definition exact :: "(complex option, real option) numpy" where
  "exact = \<lparr> r_lit = Some, c_lit = Some, c_of_r = map_option complex_of_real,
             c_add = lift2 (+), c_sub = lift2 (-), c_mul = lift2 (*), c_div = xdiv,
             c_neg = map_option uminus, c_conj = map_option cnj,
             c_sqrt = map_option csqrt, c_exp = map_option exp,
             c_abs = map_option cmod, c_angle = map_option Arg, c_imag = map_option Im,
             c_isfinite = (\<lambda>z. z \<noteq> None),
             r_mul = lift2 (*), r_div = xdiv, r_sqrt = xsqrt, r_abs = map_option abs,
             r_less = xless, r_isfinite = (\<lambda>x. x \<noteq> None),
             linalg_norm = xnorm \<rparr>"

section \<open>vandermonde\<close>

text \<open>
  \<open>np.hstack\<close> is applied to the columns \<open>w/(x - n)\<close>, which are one-dimensional
  because \<open>x = X.flatten()\<close> is: on one-dimensional arrays it concatenates along the
  first axis.  An empty sequence of arrays is a ValueError.
\<close>

definition np_hstack :: "'a list list \<Rightarrow> error + 'a ndarray" where
  "np_hstack cols = (if cols = [] then Inl ValueError else Inr (array1 (concat cols)))"

text \<open>
  \<open>np.all(a, axis = 1)\<close> reduces the second axis with \<open>and\<close>; an array with fewer than
  two axes has no axis 1, which is an AxisError.
\<close>

definition np_all_axis1 :: "bool ndarray \<Rightarrow> error + bool ndarray" where
  "np_all_axis1 a =
     (case shape a of
        d0 # d1 # rest \<Rightarrow>
          (let r = prod_list rest in
           Inr (NDArray (d0 # rest)
                  (concat (map (\<lambda>i. map (\<lambda>k. list_all (\<lambda>j. data a ! ((i * d1 + j) * r + k)) [0 ..< d1])
                                         [0 ..< r])
                               [0 ..< d0]))))
      | _ \<Rightarrow> Inl AxisError)"

text \<open>\<open>np.argwhere(~finite)\<close>: the indices of the rows with a non-finite entry.\<close>

definition argwhere_not :: "bool ndarray \<Rightarrow> nat list" where
  "argwhere_not m = filter (\<lambda>i. \<not> data m ! i) [0 ..< length (data m)]"

text \<open>\<open>np.argmin\<close>: the first index of a smallest element; no element is a ValueError.\<close>

fun argmin_from :: "('c, 'r) numpy \<Rightarrow> 'r \<Rightarrow> nat \<Rightarrow> nat \<Rightarrow> 'r list \<Rightarrow> nat" where
  "argmin_from np m best i [] = best"
| "argmin_from np m best i (d # ds) =
     (if r_less np d m then argmin_from np d i (i + 1) ds
      else argmin_from np m best (i + 1) ds)"

definition np_argmin :: "('c, 'r) numpy \<Rightarrow> 'r list \<Rightarrow> error + nat" where
  "np_argmin np ds = (case ds of [] \<Rightarrow> Inl ValueError | d # ds' \<Rightarrow> Inr (argmin_from np d 0 1 ds'))"

text \<open>
  One turn of the loop: \<open>V[row] = 0\<close>, then
  \<open>V[row, argmin(abs(x[row] - nodes))] = 1\<close>.  Indexing \<open>V\<close> with a row and a column
  needs two axes.
\<close>

definition replace_row ::
  "('c, 'r) numpy \<Rightarrow> 'c list \<Rightarrow> 'c list \<Rightarrow> 'c ndarray \<Rightarrow> nat \<Rightarrow> error + 'c ndarray" where
  "replace_row np ns x V row =
     (case shape V of
        [m, n] \<Rightarrow>
          if row < m \<and> row < length x then
            bindE (np_argmin np (map (\<lambda>nd. c_abs np (c_sub np (x ! row) nd)) ns)) (\<lambda>j.
            if j < n then
              Inr (NDArray [m, n]
                     ((take (row * n) (data V) @ replicate n (c_lit np 0) @ drop ((row + 1) * n) (data V))
                        [row * n + j := c_lit np 1]))
            else Inl IndexError)
          else Inl IndexError
      | _ \<Rightarrow> Inl IndexError)"

fun replace_rows ::
  "('c, 'r) numpy \<Rightarrow> 'c list \<Rightarrow> 'c list \<Rightarrow> nat list \<Rightarrow> 'c ndarray \<Rightarrow> error + 'c ndarray" where
  "replace_rows np ns x [] V = Inr V"
| "replace_rows np ns x (row # rows) V =
     bindE (replace_row np ns x V row) (replace_rows np ns x rows)"

definition vandermonde ::
  "('c, 'r) numpy \<Rightarrow> 'c LagrangePolynomialBasis \<Rightarrow> 'c ndarray \<Rightarrow> error + 'c ndarray" where
  "vandermonde np self X =
     (let x = flatten X in
      bindE (py_len X) (\<lambda>l.
      bindE (py_assert (length x = l) ''Input must be one dimensional'') (\<lambda>_.
      bindE (np_hstack (map (\<lambda>(n, w). map (\<lambda>xi. c_div np w (c_sub np xi n)) x)
                            (zip (self_nodes self) (self_weights self)))) (\<lambda>V.
      bindE (np_all_axis1 (NDArray (shape V) (map (c_isfinite np) (data V)))) (\<lambda>finite.
      replace_rows np (self_nodes self) x (argwhere_not finite) V)))))"

section \<open>Square matrices\<close>

type_synonym 'a matrix = "'a list list"

definition mat_of :: "nat \<Rightarrow> (nat \<Rightarrow> nat \<Rightarrow> 'a) \<Rightarrow> 'a matrix" where
  "mat_of n f = map (\<lambda>i. map (\<lambda>j. f i j) [0 ..< n]) [0 ..< n]"

definition index2 :: "'a matrix \<Rightarrow> nat \<Rightarrow> nat \<Rightarrow> error + 'a" where
  \<comment> \<open>\<open>M[i, j]\<close>\<close>
  "index2 M i j = (if i < length M \<and> j < length (M ! i) then Inr (M ! i ! j) else Inl IndexError)"

definition np_zeros :: "('c, 'r) numpy \<Rightarrow> nat \<Rightarrow> 'c matrix" where
  "np_zeros np n = mat_of n (\<lambda>i j. c_lit np 0)"

definition np_eye :: "('c, 'r) numpy \<Rightarrow> nat \<Rightarrow> 'c matrix" where
  "np_eye np n = mat_of n (\<lambda>i j. if i = j then c_lit np 1 else c_lit np 0)"

definition np_diag :: "('c, 'r) numpy \<Rightarrow> 'c list \<Rightarrow> 'c matrix" where
  "np_diag np xs = mat_of (length xs) (\<lambda>i j. if i = j then xs ! i else c_lit np 0)"

definition set_entry :: "'a matrix \<Rightarrow> nat \<Rightarrow> nat \<Rightarrow> 'a \<Rightarrow> 'a matrix" where
  \<comment> \<open>\<open>M[i, j] = v\<close>\<close>
  "set_entry M i j v = mat_of (length M) (\<lambda>i' j'. if i' = i \<and> j' = j then v else M ! i' ! j')"

definition set_block :: "'a matrix \<Rightarrow> nat \<Rightarrow> 'a matrix \<Rightarrow> 'a matrix" where
  \<comment> \<open>\<open>M[r:, r:] = B\<close>\<close>
  "set_block M r B =
     mat_of (length M) (\<lambda>i j. if r \<le> i \<and> r \<le> j then B ! (i - r) ! (j - r) else M ! i ! j)"

definition set_topleft :: "'a matrix \<Rightarrow> 'a matrix \<Rightarrow> 'a matrix" where
  \<comment> \<open>\<open>M[0:2, 0:2] = B\<close>\<close>
  "set_topleft M B = mat_of (length M) (\<lambda>i j. if i < 2 \<and> j < 2 then B ! i ! j else M ! i ! j)"

definition set_row :: "'a matrix \<Rightarrow> nat \<Rightarrow> nat \<Rightarrow> 'a list \<Rightarrow> 'a matrix" where
  \<comment> \<open>\<open>M[i, c:] = xs\<close>\<close>
  "set_row M i c xs =
     mat_of (length M) (\<lambda>i' j. if i' = i \<and> c \<le> j then xs ! (j - c) else M ! i' ! j)"

definition set_col :: "'a matrix \<Rightarrow> nat \<Rightarrow> nat \<Rightarrow> 'a list \<Rightarrow> 'a matrix" where
  \<comment> \<open>\<open>M[r:, j] = xs\<close>\<close>
  "set_col M r j xs =
     mat_of (length M) (\<lambda>i j'. if r \<le> i \<and> j' = j then xs ! (i - r) else M ! i ! j')"

definition col_tail :: "'a matrix \<Rightarrow> nat \<Rightarrow> nat \<Rightarrow> 'a list" where
  \<comment> \<open>\<open>M[r:, j]\<close>\<close>
  "col_tail M r j = map (\<lambda>row. row ! j) (drop r M)"

definition tail_block :: "'a matrix \<Rightarrow> 'a matrix" where
  \<comment> \<open>\<open>M[1:, 1:]\<close>\<close>
  "tail_block M = map tl (tl M)"

definition ctranspose :: "('c, 'r) numpy \<Rightarrow> 'c matrix \<Rightarrow> 'c matrix" where
  \<comment> \<open>\<open>M.T.conjugate()\<close>\<close>
  "ctranspose np M = mat_of (length M) (\<lambda>i j. c_conj np (M ! j ! i))"

definition dot :: "('c, 'r) numpy \<Rightarrow> 'c list \<Rightarrow> 'c list \<Rightarrow> 'c" where
  "dot np xs ys = foldr (\<lambda>(a, b) acc. c_add np (c_mul np a b) acc) (zip xs ys) (c_lit np 0)"

definition matmul :: "('c, 'r) numpy \<Rightarrow> 'c matrix \<Rightarrow> 'c matrix \<Rightarrow> 'c matrix" where
  \<comment> \<open>\<open>A @ B\<close>, \<open>A.dot(B)\<close>\<close>
  "matmul np A B = mat_of (length A) (\<lambda>i j. dot np (A ! i) (map (\<lambda>row. row ! j) B))"

definition is_square :: "nat \<Rightarrow> 'a matrix \<Rightarrow> bool" where
  "is_square n M = (length M = n \<and> list_all (\<lambda>row. length row = n) M)"

section \<open>The module namespace\<close>

text \<open>
  A global name is looked up when the statement that uses it runs.  The objects that
  matter to \<open>lagrange_roots\<close> are the two routines of the linear-algebra library and the
  \<open>warnings\<close> module; whatever else a name is bound to is an \<open>OtherObject\<close>.
\<close>

datatype 'c pyobject =
    HessenbergFn "'c matrix \<Rightarrow> error + 'c matrix \<times> 'c matrix"
  | EigvalsFn "'c matrix \<Rightarrow> 'c matrix \<Rightarrow> error + 'c list"
  | WarningsModule
  | OtherObject

type_synonym 'c globals = "string \<Rightarrow> 'c pyobject option"

text \<open>
  The names \<open>lagrange.py\<close> binds: its two imports, \<open>np\<close> and \<open>PolynomialBasis\<close>, and
  its two definitions.  None of \<open>hessenberg\<close>, \<open>eigvals\<close> and \<open>warnings\<close> is a builtin.
\<close>

definition module_globals :: "'c globals" where
  "module_globals =
     [''np'' \<mapsto> OtherObject, ''PolynomialBasis'' \<mapsto> OtherObject,
      ''lagrange_roots'' \<mapsto> OtherObject, ''LagrangePolynomialBasis'' \<mapsto> OtherObject]"

definition lookup_global :: "'c globals \<Rightarrow> string \<Rightarrow> error + 'c pyobject" where
  "lookup_global g name = (case g name of None \<Rightarrow> Inl (NameError name) | Some obj \<Rightarrow> Inr obj)"

definition call_hessenberg :: "'c globals \<Rightarrow> 'c matrix \<Rightarrow> error + 'c matrix \<times> 'c matrix" where
  "call_hessenberg g A =
     bindE (lookup_global g ''hessenberg'')
       (\<lambda>f. case f of HessenbergFn h \<Rightarrow> h A | _ \<Rightarrow> Inl TypeError)"

definition call_eigvals :: "'c globals \<Rightarrow> 'c matrix \<Rightarrow> 'c matrix \<Rightarrow> error + 'c list" where
  "call_eigvals g A B =
     bindE (lookup_global g ''eigvals'')
       (\<lambda>f. case f of EigvalsFn e \<Rightarrow> e A B | _ \<Rightarrow> Inl TypeError)"

definition catch_warnings :: "'c globals \<Rightarrow> error + unit" where
  "catch_warnings g =
     bindE (lookup_global g ''warnings'')
       (\<lambda>m. case m of WarningsModule \<Rightarrow> Inr () | _ \<Rightarrow> Inl AttributeError)"

section \<open>lagrange_roots\<close>

definition scale :: "('c, 'r) numpy \<Rightarrow> 'c list \<Rightarrow> 'c list" where
  \<comment> \<open>\<open>v / np.linalg.norm(v)\<close>\<close>
  "scale np v = map (\<lambda>x. c_div np x (c_of_r np (linalg_norm np v))) v"

definition balancing :: "('c, 'r) numpy \<Rightarrow> 'c list \<Rightarrow> 'c list \<Rightarrow> 'r list" where
  "balancing np weights coef =
     r_lit np 1 #
     map (\<lambda>(wj, aj). if r_less np (r_lit np 0) (c_abs np aj)
                      then r_sqrt np (c_abs np (c_div np wj aj)) else r_lit np 1)
         (zip weights coef)"

text \<open>
  The pencil \<open>(C0, C1)\<close> after scaling and balancing, with the scaled coefficients.
  The source allocates both matrices with \<open>dtype=np.complex\<close>, the alias of the builtin
  \<open>complex\<close> that numpy had up to release 1.23; the model is of the module on such a numpy.
  The three arrays have the same length here, by the assertion that comes first.
\<close>

definition pencil ::
  "('c, 'r) numpy \<Rightarrow> 'c list \<Rightarrow> 'c list \<Rightarrow> 'c list \<Rightarrow> 'c matrix \<times> 'c matrix \<times> 'c list" where
  "pencil np nodes weights coef =
     (let n = length nodes;
          C0 = set_block (np_zeros np (n + 1)) 1 (np_diag np nodes);
          C1 = set_entry (np_eye np (n + 1)) 0 0 (c_lit np 0);
          coef = scale np coef;
          weights = scale np weights;
          C0 = set_row C0 0 1 coef;
          C0 = set_col C0 1 0 weights;
          s = balancing np weights coef;
          C0 = matmul np (matmul np (np_diag np (map (\<lambda>sj. c_of_r np (r_div np (r_lit np 1) sj)) s)) C0)
                         (np_diag np (map (c_of_r np) s))
      in (C0, C1, coef))"

text \<open>
  The rotation that makes the first weight real.  It returns the pencil matrix and the
  value of \<open>deflation\<close> after the statement.
\<close>

definition phase_rotation ::
  "('c, 'r) numpy \<Rightarrow> 'c matrix \<Rightarrow> bool \<Rightarrow> error + 'c matrix \<times> bool" where
  "phase_rotation np C0 deflation =
     bindE (index2 C0 1 0) (\<lambda>z.
     let angle = c_angle np z in
     if r_isfinite np angle then
       Inr (set_col C0 1 0
              (map (\<lambda>v. c_mul np v (c_exp np (c_mul np (c_lit np (- \<i>)) (c_of_r np angle))))
                   (col_tail C0 1 0)),
            deflation)
     else Inr (C0, False))"

text \<open>
  The Householder reflector of the first column and the similarity it applies to both
  matrices.  It runs after \<open>C0[1,0]\<close> has been read, so \<open>u\<close> has an entry 0.
\<close>

definition householder ::
  "('c, 'r) numpy \<Rightarrow> nat \<Rightarrow> 'c matrix \<Rightarrow> 'c matrix \<Rightarrow> 'c matrix \<times> 'c matrix" where
  "householder np n C0 C1 =
     (let u = col_tail C0 1 0;
          u = u[0 := c_add np (u ! 0) (c_of_r np (linalg_norm np (col_tail C0 1 0)))];
          nu = linalg_norm np u;
          H = mat_of n (\<lambda>i j.
                c_sub np (if i = j then c_lit np 1 else c_lit np 0)
                  (c_div np (c_mul np (c_lit np 2) (c_mul np (u ! i) (c_conj np (u ! j))))
                            (c_of_r np (r_mul np nu nu))));
          G2 = set_block (set_entry (np_zeros np (n + 1)) 0 0 (c_lit np 1)) 1 H
      in (matmul np (matmul np G2 C0) G2, matmul np (matmul np G2 C1) G2))"

text \<open>
  The Givens rotation \<open>G5\<close> built from \<open>a = H1[0,0]\<close> and \<open>b = H1[1,0]\<close>.
\<close>

definition givens :: "('c, 'r) numpy \<Rightarrow> nat \<Rightarrow> 'c matrix \<Rightarrow> error + 'c matrix" where
  "givens np n H1 =
     bindE (index2 H1 0 0) (\<lambda>a.
     bindE (index2 H1 1 0) (\<lambda>b.
     let c = c_div np a (c_sqrt np (c_add np (c_mul np a a) (c_mul np b b)));
         s = c_div np b (c_sqrt np (c_add np (c_mul np a a) (c_mul np b b)))
     in Inr (set_topleft (np_eye np n) [[c_conj np c, c_conj np s], [c_neg np s, c]])))"

text \<open>
  The deflation path from the call of \<open>hessenberg\<close> to the call of \<open>eigvals\<close>.
\<close>

definition deflated_eigvals ::
  "'c globals \<Rightarrow> ('c, 'r) numpy \<Rightarrow> nat \<Rightarrow> 'c matrix \<Rightarrow> 'c matrix \<Rightarrow> error + 'c list" where
  "deflated_eigvals g np n C0 C1 =
     bindE (call_hessenberg g (tail_block C0)) (\<lambda>(H1, P1).
     bindE (if is_square n P1 then Inr () else Inl ValueError) (\<lambda>_.
     let G3 = set_block (set_entry (np_zeros np (n + 1)) 0 0 (c_lit np 1)) 1 (ctranspose np P1);
         G4 = set_topleft (np_eye np (n + 1)) [[c_lit np 0, c_lit np 1], [c_lit np 1, c_lit np 0]];
         H1 = tail_block (matmul np G4 (matmul np G3 (matmul np C0 (ctranspose np G3))));
         B1 = tail_block (matmul np G4 (matmul np G3 (matmul np C1 (ctranspose np G3))))
     in bindE (givens np n H1) (\<lambda>G5.
        let H2 = tail_block (matmul np G5 H1);
            B2 = tail_block (matmul np G5 B1)
        in call_eigvals g H2 B2)))"

text \<open>
  The two branches of \<open>if deflation\<close>.  The first asserts that \<open>C0[1,0]\<close> is real to
  within \<open>1e-10\<close>; the second opens \<open>warnings.catch_warnings()\<close>, calls \<open>eigvals\<close> on the
  full pencil, keeps the finite eigenvalues and asserts that there are \<open>len(coef) - 1\<close>.
\<close>

definition deflation_path ::
  "'c globals \<Rightarrow> ('c, 'r) numpy \<Rightarrow> nat \<Rightarrow> 'c matrix \<Rightarrow> 'c matrix \<Rightarrow> error + 'c list" where
  "deflation_path g np n C0 C1 =
     bindE (index2 C0 1 0) (\<lambda>z.
     bindE (py_assert (r_less np (r_abs np (c_imag np z)) (r_lit np (1 / 10 ^ 10))) ''C0[1,0]'') (\<lambda>_.
     let (C0, C1) = householder np n C0 C1 in
     deflated_eigvals g np n C0 C1))"

definition fallback_path ::
  "'c globals \<Rightarrow> ('c, 'r) numpy \<Rightarrow> 'c matrix \<Rightarrow> 'c matrix \<Rightarrow> 'c list \<Rightarrow> error + 'c list" where
  "fallback_path g np C0 C1 coef =
     bindE (catch_warnings g) (\<lambda>_.
     bindE (call_eigvals g C0 C1) (\<lambda>ew.
     let ew = filter (c_isfinite np) ew in
     bindE (py_assert (int (length ew) = int (length coef) - 1)
              ''Error: too many infinite eigenvalues encountered'') (\<lambda>_.
     Inr ew)))"

definition lagrange_roots ::
  "'c globals \<Rightarrow> ('c, 'r) numpy \<Rightarrow> 'c list \<Rightarrow> 'c list \<Rightarrow> 'c list \<Rightarrow> bool \<Rightarrow> error + 'c list" where
  "lagrange_roots g np nodes weights coef deflation =
     (let n = length nodes in
      bindE (py_assert (n = length weights \<and> n = length coef)
               ''Dimensions of nodes, weights, and coef should be the same'') (\<lambda>_.
      let (C0, C1, coef) = pencil np nodes weights coef in
      bindE (phase_rotation np C0 deflation) (\<lambda>(C0, deflation).
      if deflation then deflation_path g np n C0 C1
      else fallback_path g np C0 C1 coef)))"

definition roots ::
  "'c globals \<Rightarrow> ('c, 'r) numpy \<Rightarrow> 'c LagrangePolynomialBasis \<Rightarrow> 'c list \<Rightarrow> bool \<Rightarrow> error + 'c list" where
  "roots g np self coef deflation =
     lagrange_roots g np (self_nodes self) (self_weights self) coef deflation"

section \<open>Auxiliary facts\<close>

lemma bindE_simps [simp]:
  "bindE (Inl e) f = Inl e"
  "bindE (Inr v) f = f v"
  by (simp_all add: bindE_def)

lemma exact_simps:
  "r_lit exact = Some" "c_lit exact = Some" "c_of_r exact = map_option complex_of_real"
  "c_add exact = lift2 (+)" "c_sub exact = lift2 (-)" "c_mul exact = lift2 (*)"
  "c_div exact = xdiv" "c_neg exact = map_option uminus" "c_conj exact = map_option cnj"
  "c_sqrt exact = map_option csqrt" "c_exp exact = map_option exp"
  "c_abs exact = map_option cmod" "c_angle exact = map_option Arg"
  "c_imag exact = map_option Im" "c_isfinite exact = (\<lambda>z. z \<noteq> None)"
  "r_mul exact = lift2 (*)" "r_div exact = xdiv" "r_sqrt exact = xsqrt"
  "r_abs exact = map_option abs" "r_less exact = xless"
  "r_isfinite exact = (\<lambda>x. x \<noteq> None)" "linalg_norm exact = xnorm"
  by (simp_all add: exact_def)

lemma length_mat_of [simp]: "length (mat_of n f) = n"
  by (simp add: mat_of_def)

lemma nth_mat_of [simp]: "i < n \<Longrightarrow> mat_of n f ! i = map (f i) [0 ..< n]"
  by (simp add: mat_of_def)

lemma length_matmul [simp]: "length (matmul np A B) = length A"
  by (simp add: matmul_def)

lemma length_np_diag [simp]: "length (np_diag np xs) = length xs"
  by (simp add: np_diag_def)

lemma length_set_topleft [simp]: "length (set_topleft M B) = length M"
  by (simp add: set_topleft_def)

lemma length_np_eye [simp]: "length (np_eye np n) = n"
  by (simp add: np_eye_def)

lemma index2_matmul:
  "i < length A \<Longrightarrow> j < length A \<Longrightarrow>
   index2 (matmul np A B) i j = Inr (dot np (A ! i) (map (\<lambda>row. row ! j) B))"
  by (simp add: index2_def matmul_def)

lemma index2_cases: "index2 M i j = Inl IndexError \<or> index2 M i j = Inr (M ! i ! j)"
  by (simp add: index2_def)

section \<open>Name resolution in lagrange_roots\<close>

lemma lookup_hessenberg:
  "lookup_global module_globals ''hessenberg'' = Inl (NameError ''hessenberg'')"
  by (simp add: lookup_global_def module_globals_def)

lemma lookup_eigvals:
  "lookup_global module_globals ''eigvals'' = Inl (NameError ''eigvals'')"
  by (simp add: lookup_global_def module_globals_def)

lemma lookup_warnings:
  "lookup_global module_globals ''warnings'' = Inl (NameError ''warnings'')"
  by (simp add: lookup_global_def module_globals_def)

lemma deflated_eigvals_unbound:
  "deflated_eigvals module_globals np n C0 C1 = Inl (NameError ''hessenberg'')"
  by (simp add: deflated_eigvals_def call_hessenberg_def lookup_hessenberg)

lemma fallback_path_unbound:
  "fallback_path module_globals np C0 C1 coef = Inl (NameError ''warnings'')"
  by (simp add: fallback_path_def catch_warnings_def lookup_warnings)

lemma deflation_path_unbound:
  "deflation_path module_globals np n C0 C1 \<in>
     {Inl IndexError, Inl (AssertionError ''C0[1,0]''), Inl (NameError ''hessenberg'')}"
  using index2_cases [of C0 1 0]
  by (auto simp add: deflation_path_def deflated_eigvals_unbound py_assert_def
           split: prod.splits)

lemma phase_rotation_cases:
  "phase_rotation np C0 deflation = Inl IndexError \<or>
   (\<exists>C0' d. phase_rotation np C0 deflation = Inr (C0', d))"
  using index2_cases [of C0 1 0]
  by (cases "r_isfinite np (c_angle np (C0 ! 1 ! 0))") (auto simp add: phase_rotation_def Let_def)

lemma lagrange_roots_unbound:
  "lagrange_roots module_globals np nodes weights coef deflation \<in>
     {Inl (AssertionError ''Dimensions of nodes, weights, and coef should be the same''),
      Inl IndexError, Inl (AssertionError ''C0[1,0]''),
      Inl (NameError ''hessenberg''), Inl (NameError ''warnings'')}"
proof (cases "length nodes = length weights \<and> length nodes = length coef")
  case False
  then show ?thesis
    by (auto simp add: lagrange_roots_def Let_def py_assert_def)
next
  case True
  obtain C0 C1 coef' where p: "pencil np nodes weights coef = (C0, C1, coef')"
    by (cases "pencil np nodes weights coef") auto
  from phase_rotation_cases [of np C0 deflation]
  show ?thesis
  proof
    assume "phase_rotation np C0 deflation = Inl IndexError"
    with True p show ?thesis
      by (simp add: lagrange_roots_def Let_def py_assert_def)
  next
    assume "\<exists>C0' d. phase_rotation np C0 deflation = Inr (C0', d)"
    then obtain C0' d where r: "phase_rotation np C0 deflation = Inr (C0', d)"
      by blast
    show ?thesis
    proof (cases d)
      case True
      with \<open>length nodes = length weights \<and> length nodes = length coef\<close> p r
      have "lagrange_roots module_globals np nodes weights coef deflation =
              deflation_path module_globals np (length nodes) C0' C1"
        by (simp add: lagrange_roots_def Let_def py_assert_def)
      with deflation_path_unbound [of np "length nodes" C0' C1] show ?thesis
        by auto
    next
      case False
      with \<open>length nodes = length weights \<and> length nodes = length coef\<close> p r
      have "lagrange_roots module_globals np nodes weights coef deflation =
              fallback_path module_globals np C0' C1 coef'"
        by (simp add: lagrange_roots_def Let_def py_assert_def)
      then show ?thesis
        by (simp add: fallback_path_unbound)
    qed
  qed
qed

text \<open>
  C10.  With the names the module binds, both eigenvalue stages stop at their first
  unbound name: the deflation path at \<open>hessenberg\<close>, the fallback path at \<open>warnings\<close>.
  So a call of \<open>lagrange_roots\<close> ends in one of the assertions or the IndexError that come
  before these stages, or in a NameError; it never returns roots.
\<close>

theorem eigenvalue_stage_raises_NameError:
  "deflated_eigvals module_globals np n C0 C1 = Inl (NameError ''hessenberg'')
   \<and> fallback_path module_globals np C0 C1 coef' = Inl (NameError ''warnings'')
   \<and> lagrange_roots module_globals np nodes weights coef deflation \<in>
       {Inl (AssertionError ''Dimensions of nodes, weights, and coef should be the same''),
        Inl IndexError, Inl (AssertionError ''C0[1,0]''),
        Inl (NameError ''hessenberg''), Inl (NameError ''warnings'')}"
  by (simp only: deflated_eigvals_unbound fallback_path_unbound lagrange_roots_unbound simp_thms)

section \<open>Calls with at least one node\<close>

lemma length_pencil_C0:
  "length weights = length nodes \<Longrightarrow> length coef = length nodes \<Longrightarrow>
   length (fst (pencil np nodes weights coef)) = length nodes + 1"
  by (simp add: pencil_def Let_def balancing_def scale_def)

lemma index2_pencil_C0:
  assumes "nodes \<noteq> []" "length weights = length nodes" "length coef = length nodes"
  shows "\<exists>z. index2 (fst (pencil np nodes weights coef)) 1 0 = Inr z"
proof -
  have "1 < length nodes + 1"
    using assms by (cases nodes) simp_all
  then show ?thesis
    using assms
    by (simp add: pencil_def Let_def balancing_def scale_def index2_matmul)
qed

lemma phase_rotation_no_deflation:
  "index2 C0 1 0 = Inr z \<Longrightarrow> \<exists>C0'. phase_rotation np C0 False = Inr (C0', False)"
  by (simp add: phase_rotation_def Let_def)

lemma phase_rotation_flag:
  "index2 C0 1 0 = Inr z \<Longrightarrow> \<exists>C0' d. phase_rotation np C0 deflation = Inr (C0', d)"
  by (cases "r_isfinite np (c_angle np z)") (auto simp add: phase_rotation_def Let_def)

lemma deflation_path_after_rotation:
  "index2 C0 1 0 = Inr z \<Longrightarrow>
   deflation_path module_globals np n C0 C1 \<in>
     {Inl (AssertionError ''C0[1,0]''), Inl (NameError ''hessenberg'')}"
  by (auto simp add: deflation_path_def deflated_eigvals_unbound py_assert_def split: prod.splits)

lemma lagrange_roots_fallback_unbound:
  assumes "nodes \<noteq> []" "length weights = length nodes" "length coef = length nodes"
  shows "lagrange_roots module_globals np nodes weights coef False = Inl (NameError ''warnings'')"
proof -
  obtain C0 C1 coef' where p: "pencil np nodes weights coef = (C0, C1, coef')"
    by (cases "pencil np nodes weights coef") auto
  from index2_pencil_C0 [OF assms, of np] p obtain z where "index2 C0 1 0 = Inr z"
    by auto
  from phase_rotation_no_deflation [OF this, of np] obtain C0'
    where "phase_rotation np C0 False = Inr (C0', False)"
    by blast
  with assms p show ?thesis
    by (simp add: lagrange_roots_def Let_def py_assert_def fallback_path_unbound)
qed

lemma lagrange_roots_nonempty:
  assumes "nodes \<noteq> []" "length weights = length nodes" "length coef = length nodes"
  shows "lagrange_roots module_globals np nodes weights coef deflation \<in>
           {Inl (AssertionError ''C0[1,0]''), Inl (NameError ''hessenberg''),
            Inl (NameError ''warnings'')}"
proof -
  obtain C0 C1 coef' where p: "pencil np nodes weights coef = (C0, C1, coef')"
    by (cases "pencil np nodes weights coef") auto
  from index2_pencil_C0 [OF assms, of np] p obtain z where z: "index2 C0 1 0 = Inr z"
    by auto
  from phase_rotation_flag [OF this, of np deflation] obtain C0' d
    where r: "phase_rotation np C0 deflation = Inr (C0', d)"
    by blast
  have "\<exists>z'. index2 C0' 1 0 = Inr z'"
    using z r
    by (cases "r_isfinite np (c_angle np z)")
       (auto simp add: phase_rotation_def Let_def index2_def set_col_def split: if_splits)
  then obtain z' where "index2 C0' 1 0 = Inr z'"
    by blast
  from deflation_path_after_rotation [OF this, of np "length nodes" C1]
  show ?thesis
    using assms p r
    by (cases d) (auto simp add: lagrange_roots_def Let_def py_assert_def fallback_path_unbound)
qed

text \<open>
  C2.  The claim is that the fallback path returns exactly N-1 finite eigenvalues or fails
  with the assertion on their count.  The module as it is does neither: for every
  nonempty input of matching lengths the call with \<open>deflation = False\<close> raises
  NameError at \<open>warnings.catch_warnings()\<close>, before any eigenvalue is computed.
\<close>

theorem fallback_call_raises_NameError:
  assumes "nodes \<noteq> []" "length weights = length nodes" "length coef = length nodes"
  shows "lagrange_roots module_globals np nodes weights coef False = Inl (NameError ''warnings'')"
  using assms by (rule lagrange_roots_fallback_unbound)

theorem fallback_call_raises_NameError_witness:
  "lagrange_roots module_globals exact [Some (- 1), Some 0, Some 1]
     [Some (1 / 2), Some (- 1), Some (1 / 2)] [Some (21 / 25), Some (- 3 / 50), Some (26 / 25)] False
   = Inl (NameError ''warnings'')"
  using fallback_call_raises_NameError [of "[Some (- 1), Some 0, Some 1]"
     "[Some (1 / 2), Some (- 1), Some (1 / 2)]" "[Some (21 / 25), Some (- 3 / 50), Some (26 / 25)]" exact]
  by simp

text \<open>
  The branch itself is as the specification describes it: in a namespace that binds
  \<open>warnings\<close> and \<open>eigvals\<close>, it returns the finite eigenvalues when there are
  \<open>len(coef) - 1\<close> of them and fails with the assertion otherwise.
\<close>

lemma fallback_path_bound:
  assumes "g ''warnings'' = Some WarningsModule" "g ''eigvals'' = Some (EigvalsFn e)"
    and "e C0 C1 = Inr ew"
  shows "fallback_path g np C0 C1 coef =
           (if int (length (filter (c_isfinite np) ew)) = int (length coef) - 1
            then Inr (filter (c_isfinite np) ew)
            else Inl (AssertionError ''Error: too many infinite eigenvalues encountered''))"
  using assms
  by (simp add: fallback_path_def catch_warnings_def call_eigvals_def lookup_global_def
        py_assert_def Let_def)

section \<open>Construction of the basis\<close>

lemma init_array1:
  "init np (array1 ns) =
     Inr \<lparr> self_nodes = ns,
           self_weights = map (\<lambda>k. c_div np (c_lit np 1) (weight_denominator np ns k))
                              [0 ..< length ns] \<rparr>"
  by (simp add: init_def array1_def py_len_def py_assert_def flatten_def)

lemma init_cases:
  "init np a =
     (case shape a of
        [] \<Rightarrow> Inl TypeError
      | d # _ \<Rightarrow>
          if d = length (data a)
          then Inr \<lparr> self_nodes = data a,
                     self_weights = map (\<lambda>k. c_div np (c_lit np 1) (weight_denominator np (data a) k))
                                        [0 ..< length (data a)] \<rparr>
          else Inl (AssertionError ''Input must be one-dimensional''))"
  by (simp add: init_def py_len_def py_assert_def flatten_def Let_def split: list.splits)

text \<open>
  C7, as stated, fails: the input of shape (2, 1) is not one-dimensional and the
  construction accepts it.
\<close>

theorem init_accepts_column:
  "init exact (NDArray [2, 1] [Some 0, Some 1]) =
     Inr \<lparr> self_nodes = [Some 0, Some 1], self_weights = [Some (- 1), Some 1] \<rparr>"
  by (simp add: init_cases weight_denominator_def np_prod_def exact_def upt_rec)

text \<open>
  C7, amended.  For an array with as many elements as its shape says, the construction
  fails with the assertion "Input must be one-dimensional" exactly when the array has a
  first axis whose length differs from the number of elements; a 0-d array raises
  TypeError; every other array is accepted and flattened, among them every
  one-dimensional array and every (M, 1) column.
\<close>

theorem init_accepts_iff:
  assumes "wf_ndarray a"
  shows "(init np a = Inl (AssertionError ''Input must be one-dimensional'')
            \<longleftrightarrow> shape a \<noteq> [] \<and> hd (shape a) \<noteq> prod_list (shape a))
       \<and> (init np a = Inl TypeError \<longleftrightarrow> shape a = [])
       \<and> (isl (init np a) \<longleftrightarrow> shape a = [] \<or> hd (shape a) \<noteq> prod_list (shape a))
       \<and> (length (shape a) = 1 \<longrightarrow> \<not> isl (init np a))"
  using assms
  by (cases "shape a") (auto simp add: init_cases wf_ndarray_def)

theorem init_accepts_iff_witness:
  "init exact (NDArray [2, 3] (replicate 6 (Some 0))) =
     Inl (AssertionError ''Input must be one-dimensional'')
   \<and> init exact (NDArray [] [Some 0]) = Inl TypeError
   \<and> \<not> isl (init exact (NDArray [3] [Some (- 1), Some 0, Some 1]))"
  using init_accepts_iff [of "NDArray [2, 3] (replicate 6 (Some 0))" exact]
        init_accepts_iff [of "NDArray [] [Some 0]" exact]
        init_accepts_iff [of "NDArray [3] [Some (- 1), Some 0, Some 1]" exact]
  by (simp add: wf_ndarray_def)

lemma foldl_exact_mul:
  "foldl (lift2 (*)) (Some a) (map Some ys) = Some (a * prod_list ys)"
  by (induction ys arbitrary: a) (simp_all add: mult.assoc)

lemma np_prod_exact: "np_prod exact (map Some ys) = Some (prod_list ys)"
  by (simp add: np_prod_def exact_def foldl_exact_mul)

lemma prod_list_take_drop:
  fixes f :: "'a \<Rightarrow> 'b :: comm_monoid_mult"
  assumes "k < length xs"
  shows "prod_list (map f (take k xs)) * prod_list (map f (drop (Suc k) xs)) =
         (\<Prod>i\<in>{..<length xs} - {k}. f (xs ! i))"
proof -
  have a: "prod_list (map f (take k xs)) = (\<Prod>i\<in>{0..<k}. f (xs ! i))"
    using assms by (simp add: prod.list_conv_set_nth)
  have e: "{Suc k..<length xs} = {0 + Suc k..<(length xs - Suc k) + Suc k}"
    using assms by auto
  have "(\<Prod>i\<in>{Suc k..<length xs}. f (xs ! i)) =
        (\<Prod>i\<in>{0 + Suc k..<(length xs - Suc k) + Suc k}. f (xs ! i))"
    by (simp only: e)
  also have "\<dots> = (\<Prod>i\<in>{0..<length xs - Suc k}. f (xs ! (i + Suc k)))"
    by (rule prod.shift_bounds_nat_ivl)
  also have "\<dots> = prod_list (map f (drop (Suc k) xs))"
    using assms by (simp add: prod.list_conv_set_nth add.commute)
  finally have b: "prod_list (map f (drop (Suc k) xs)) = (\<Prod>i\<in>{Suc k..<length xs}. f (xs ! i))"
    by simp
  have s: "{..<length xs} - {k} = {0..<k} \<union> {Suc k..<length xs}"
    using assms by auto
  show ?thesis
    unfolding a b s
    by (rule prod.union_disjoint [symmetric]) auto
qed

lemma weight_denominator_exact:
  assumes "k < length xs"
  shows "weight_denominator exact (map Some xs) k =
         Some (\<Prod>i\<in>{..<length xs} - {k}. (xs ! k - xs ! i))"
proof -
  have t: "map (\<lambda>x. c_sub exact (map Some xs ! k) x) (take k (map Some xs)) =
           map Some (map (\<lambda>x. xs ! k - x) (take k xs))"
    using assms by (simp add: take_map exact_simps)
  have d: "map (\<lambda>x. c_sub exact (map Some xs ! k) x) (drop (k + 1) (map Some xs)) =
           map Some (map (\<lambda>x. xs ! k - x) (drop (Suc k) xs))"
    using assms by (simp add: drop_map exact_simps)
  have "weight_denominator exact (map Some xs) k =
          Some (prod_list (map (\<lambda>x. xs ! k - x) (take k xs)) *
                prod_list (map (\<lambda>x. xs ! k - x) (drop (Suc k) xs)))"
    unfolding weight_denominator_def t d np_prod_exact
    by (simp add: exact_simps)
  then show ?thesis
    using assms by (simp add: prod_list_take_drop)
qed

lemma distinct_denominator_nonzero:
  fixes xs :: "complex list"
  assumes "distinct xs" "k < length xs"
  shows "(\<Prod>i\<in>{..<length xs} - {k}. (xs ! k - xs ! i)) \<noteq> 0"
  using assms by (auto simp add: nth_eq_iff_index_eq)

text \<open>
  C6.  In exact arithmetic, the basis built from pairwise distinct nodes has
  \<open>weight[j] = 1 / prod_{k \<noteq> j} (node[j] - node[k])\<close> for every index \<open>j\<close>.
\<close>

theorem weights_product_formula:
  fixes xs :: "complex list"
  assumes "distinct xs"
  shows "init exact (array1 (map Some xs)) =
     Inr \<lparr> self_nodes = map Some xs,
           self_weights = map (\<lambda>j. Some (1 / (\<Prod>k\<in>{..<length xs} - {j}. (xs ! j - xs ! k))))
                              [0 ..< length xs] \<rparr>"
proof -
  have "\<And>j. j < length xs \<Longrightarrow>
          c_div exact (c_lit exact 1) (weight_denominator exact (map Some xs) j) =
          Some (1 / (\<Prod>k\<in>{..<length xs} - {j}. (xs ! j - xs ! k)))"
    using distinct_denominator_nonzero [OF assms]
    by (simp add: weight_denominator_exact exact_simps)
  then show ?thesis
    by (simp add: init_array1)
qed

theorem weights_product_formula_witness:
  "init exact (array1 [Some (- 1), Some 0, Some 1]) =
     Inr \<lparr> self_nodes = [Some (- 1), Some 0, Some 1],
           self_weights = [Some (1 / 2), Some (- 1), Some (1 / 2)] \<rparr>"
proof -
  have d: "{..<Suc (Suc (Suc 0))} - {0} = {Suc 0, Suc (Suc 0)}"
    "{..<Suc (Suc (Suc 0))} - {Suc 0} = {0, Suc (Suc 0)}"
    "{..<Suc (Suc (Suc 0))} - {Suc (Suc 0)} = {0, Suc 0}"
    by auto
  have u: "[0 ..< Suc (Suc (Suc 0))] = [0, Suc 0, Suc (Suc 0)]"
    by (simp add: upt_rec)
  have "distinct [- 1, 0, 1 :: complex]"
    by simp
  from weights_product_formula [OF this] show ?thesis
    by (simp add: d u)
qed

section \<open>roots\<close>

text \<open>
  C5.  The claim is that a single-node basis gives the empty root set without an error.
  The module as it is raises instead, for every node and coefficient: NameError at
  \<open>warnings\<close> with \<open>deflation = False\<close>; with \<open>deflation = True\<close> the assertion on
  \<open>C0[1,0]\<close> or a NameError.
\<close>

theorem single_node_roots_fail:
  "bindE (init np (array1 [x])) (\<lambda>self. roots module_globals np self [a] False) =
     Inl (NameError ''warnings'')
   \<and> bindE (init np (array1 [x])) (\<lambda>self. roots module_globals np self [a] True) \<in>
       {Inl (AssertionError ''C0[1,0]''), Inl (NameError ''hessenberg''),
        Inl (NameError ''warnings'')}"
proof -
  have w: "length [c_div np (c_lit np 1) (weight_denominator np [x] 0)] = length [x]"
    by simp
  show ?thesis
    using lagrange_roots_nonempty [of "[x]" "[c_div np (c_lit np 1) (weight_denominator np [x] 0)]" "[a]" np True]
          lagrange_roots_fallback_unbound [of "[x]" "[c_div np (c_lit np 1) (weight_denominator np [x] 0)]" "[a]" np]
    by (simp add: init_array1 roots_def)
qed

text \<open>
  With \<open>hessenberg\<close> bound, the deflation path of a single-node call still fails: \<open>H1\<close> is
  1 x 1 and \<open>H1[1,0]\<close> is out of range.
\<close>

lemma tail_block_two:
  "length A = 2 \<Longrightarrow> \<exists>x. tail_block (matmul np A B) = [[x]]"
  by (simp add: tail_block_def matmul_def mat_of_def upt_rec numeral_2_eq_2)

lemma single_node_deflation_IndexError:
  assumes "g ''hessenberg'' = Some (HessenbergFn h)" "h (tail_block C0) = Inr (H1, P1)"
    and "is_square 1 P1"
  shows "deflated_eigvals g np 1 C0 C1 = Inl IndexError"
proof -
  define G4 where "G4 = set_topleft (np_eye np (Suc (Suc 0)))
                          [[c_lit np 0, c_lit np 1], [c_lit np 1, c_lit np 0]]"
  have "length G4 = 2"
    by (simp add: G4_def)
  from tail_block_two [OF this] have t: "\<And>B. \<exists>x. tail_block (matmul np G4 B) = [[x]]"
    by blast
  have "\<And>B. givens np 1 (tail_block (matmul np G4 B)) = Inl IndexError"
  proof -
    fix B
    from t [of B] obtain x where "tail_block (matmul np G4 B) = [[x]]"
      by blast
    then show "givens np 1 (tail_block (matmul np G4 B)) = Inl IndexError"
      by (simp add: givens_def index2_def)
  qed
  then show ?thesis
    using assms
    by (simp add: deflated_eigvals_def call_hessenberg_def lookup_global_def Let_def
          G4_def [symmetric])
qed

text \<open>
  C1.  The claim is that \<open>roots\<close> returns the target roots within 1e-8, with and without
  deflation.  The module as it is returns nothing: for every basis built from at least
  one node and every coefficient vector of the same length, the call with
  \<open>deflation = False\<close> raises NameError at \<open>warnings\<close>, and the call with
  \<open>deflation = True\<close> ends in the assertion on \<open>C0[1,0]\<close> or in a NameError.
\<close>

theorem roots_round_trip_fails:
  assumes "ns \<noteq> []" "length coef = length ns"
  shows "bindE (init np (array1 ns)) (\<lambda>self. roots module_globals np self coef False)
           = Inl (NameError ''warnings'')
       \<and> bindE (init np (array1 ns)) (\<lambda>self. roots module_globals np self coef True)
           \<in> {Inl (AssertionError ''C0[1,0]''), Inl (NameError ''hessenberg''),
              Inl (NameError ''warnings'')}"
proof -
  define ws where "ws = map (\<lambda>k. c_div np (c_lit np 1) (weight_denominator np ns k)) [0 ..< length ns]"
  have l: "length ws = length ns"
    by (simp add: ws_def)
  show ?thesis
    using lagrange_roots_fallback_unbound [OF assms(1) l assms(2), of np]
          lagrange_roots_nonempty [OF assms(1) l assms(2), of np True]
    by (simp add: init_array1 roots_def ws_def)
qed

theorem roots_round_trip_fails_witness:
  "bindE (init exact (array1 [Some (- 1), Some 0, Some 1]))
     (\<lambda>self. roots module_globals exact self [Some (21 / 25), Some (- 3 / 50), Some (26 / 25)] False)
     = Inl (NameError ''warnings'')
   \<and> bindE (init exact (array1 [Some (- 1), Some 0, Some 1]))
       (\<lambda>self. roots module_globals exact self [Some (21 / 25), Some (- 3 / 50), Some (26 / 25)] True)
       \<in> {Inl (AssertionError ''C0[1,0]''), Inl (NameError ''hessenberg''),
          Inl (NameError ''warnings'')}"
  using roots_round_trip_fails [of "[Some (- 1), Some 0, Some 1]"
          "[Some (21 / 25), Some (- 3 / 50), Some (26 / 25)]" exact]
  by simp

section \<open>vandermonde\<close>

lemma vandermonde_fails:
  "vandermonde np self X \<in>
     {Inl TypeError, Inl (AssertionError ''Input must be one dimensional''),
      Inl ValueError, Inl AxisError}"
  by (auto simp add: vandermonde_def Let_def py_len_def py_assert_def np_hstack_def
        np_all_axis1_def array1_def bindE_def split: list.splits sum.splits)

lemma vandermonde_1d_AxisError:
  assumes "self_nodes self \<noteq> []" "self_weights self \<noteq> []"
  shows "vandermonde np self (array1 x) = Inl AxisError"
  using assms
  by (cases "self_nodes self"; cases "self_weights self")
     (simp_all add: vandermonde_def Let_def py_len_def py_assert_def np_hstack_def
        np_all_axis1_def array1_def flatten_def)

text \<open>
  C3.  The claim is that evaluating at the node \<open>X[j]\<close> gives the one-hot row at \<open>j\<close>.
  The code raises AxisError instead: the columns are one-dimensional, \<open>np.hstack\<close>
  concatenates them into a one-dimensional array, and \<open>np.all(..., axis = 1)\<close> has no
  axis 1 to reduce.
\<close>

theorem vandermonde_at_node_AxisError:
  "j < length ns \<Longrightarrow>
   bindE (init np (array1 ns)) (\<lambda>self. vandermonde np self (array1 [ns ! j])) = Inl AxisError"
  by (cases ns) (simp_all add: init_array1 vandermonde_1d_AxisError)

theorem vandermonde_at_node_AxisError_witness:
  "bindE (init exact (array1 [Some (- 1), Some 0, Some 1]))
     (\<lambda>self. vandermonde exact self (array1 [Some 0])) = Inl AxisError"
  using vandermonde_at_node_AxisError [of 1 "[Some (- 1), Some 0, Some 1]" exact]
  by simp

text \<open>
  C4.  The claim is that \<open>vandermonde\<close> returns an M x N matrix with finite rows.  The code
  returns no matrix at all: every call ends in TypeError (a 0-d input), in the assertion
  on the input, in ValueError (no node) or in AxisError.
\<close>

theorem vandermonde_never_returns:
  "vandermonde np self X \<in>
     {Inl TypeError, Inl (AssertionError ''Input must be one dimensional''),
      Inl ValueError, Inl AxisError}"
  by (rule vandermonde_fails)

(* C7 *)

section \<open>The phase rotation\<close>

lemma xnorm_01: "xnorm [Some 0, Some 1] = Some 1"
  by (simp add: xnorm_def)

lemma xnorm_10: "xnorm [Some 1, Some 0] = Some 1"
  by (simp add: xnorm_def)

lemmas mat_defs = mat_of_def np_zeros_def np_eye_def np_diag_def set_entry_def set_block_def
  set_topleft_def set_row_def set_col_def col_tail_def tail_block_def matmul_def dot_def

lemma upt_3: "[0 ..< 3] = [0, 1, 2]"
  by (simp add: upt_rec)

lemma pencil_zero_entry:
  "pencil exact [Some 0, Some 1] [Some 0, Some 1] [Some 0, Some 1] =
     ([[Some 0, Some 0, Some 1], [Some 0, Some 0, Some 0], [Some 1, Some 0, Some 1]],
      [[Some 0, Some 0, Some 0], [Some 0, Some 1, Some 0], [Some 0, Some 0, Some 1]],
      [Some 0, Some 1])"
  by (simp add: pencil_def Let_def scale_def balancing_def exact_simps xnorm_01 mat_defs upt_3)

lemma pencil_nan_entry:
  "pencil exact [Some 0, Some 1] [Some 0, Some 1] [Some 1, Some 0] =
     ([[Some 0, Some 0, Some 0], [None, None, None], [Some 1, Some 0, Some 1]],
      [[Some 0, Some 0, Some 0], [Some 0, Some 1, Some 0], [Some 0, Some 0, Some 1]],
      [Some 1, Some 0])"
  by (simp add: pencil_def Let_def scale_def balancing_def exact_simps xnorm_01 xnorm_10 mat_defs upt_3)

lemma phase_rotation_nonfinite:
  assumes "index2 C0 1 0 = Inr z" "\<not> r_isfinite np (c_angle np z)"
  shows "phase_rotation np C0 deflation = Inr (C0, False)"
  using assms by (simp add: phase_rotation_def Let_def)

text \<open>
  C8, as stated, fails in its gloss that an entry that is exactly zero has a non-finite
  phase angle.  With weights \<open>[0, 1]\<close> and coefficients \<open>[0, 1]\<close> the balanced entry
  \<open>C0[1,0]\<close> is exactly zero, its angle is 0, which is finite, \<open>deflation\<close> stays true and
  the call goes down the deflation path, where it stops at \<open>hessenberg\<close>.
\<close>

theorem zero_entry_keeps_deflation:
  "index2 (fst (pencil exact [Some 0, Some 1] [Some 0, Some 1] [Some 0, Some 1])) 1 0 = Inr (Some 0)
   \<and> map_sum id snd
        (phase_rotation exact (fst (pencil exact [Some 0, Some 1] [Some 0, Some 1] [Some 0, Some 1])) True)
       = Inr True
   \<and> lagrange_roots module_globals exact [Some 0, Some 1] [Some 0, Some 1] [Some 0, Some 1] True
       = Inl (NameError ''hessenberg'')"
proof -
  have r: "phase_rotation exact
             [[Some 0, Some 0, Some 1], [Some 0, Some 0, Some 0], [Some 1, Some 0, Some 1]] True =
           Inr ([[Some 0, Some 0, Some 1], [Some 0, Some 0, Some 0], [Some 1, Some 0, Some 1]], True)"
    by (simp add: phase_rotation_def Let_def index2_def exact_simps set_col_def col_tail_def
          mat_of_def upt_3 Arg_zero)
  have d: "\<And>n C1. deflation_path module_globals exact n
             [[Some 0, Some 0, Some 1], [Some 0, Some 0, Some 0], [Some 1, Some 0, Some 1]] C1 =
           Inl (NameError ''hessenberg'')"
    by (simp add: deflation_path_def index2_def exact_simps py_assert_def deflated_eigvals_unbound
          split: prod.splits)
  show ?thesis
    by (simp add: pencil_zero_entry r d lagrange_roots_def Let_def py_assert_def index2_def)
qed

text \<open>
  C8, amended.  For every call of matching lengths in which the phase angle of the
  balanced entry \<open>C0[1,0]\<close> is non-finite, the rotation is skipped, \<open>deflation\<close> is set to
  false, and the call is the fallback path on the unrotated pencil, whatever the value
  of \<open>deflation\<close> passed in.
\<close>

theorem nonfinite_angle_takes_fallback:
  assumes "length weights = length nodes" "length coef = length nodes"
    and "pencil np nodes weights coef = (C0, C1, coef')"
    and "index2 C0 1 0 = Inr z" "\<not> r_isfinite np (c_angle np z)"
  shows "phase_rotation np C0 deflation = Inr (C0, False)
       \<and> lagrange_roots g np nodes weights coef deflation = fallback_path g np C0 C1 coef'
       \<and> lagrange_roots g np nodes weights coef True = lagrange_roots g np nodes weights coef False"
proof -
  have p: "\<And>d. phase_rotation np C0 d = Inr (C0, False)"
    using assms(4,5) by (rule phase_rotation_nonfinite)
  have "\<And>d. lagrange_roots g np nodes weights coef d = fallback_path g np C0 C1 coef'"
    using assms(1,2,3) by (simp add: lagrange_roots_def Let_def py_assert_def p)
  with p show ?thesis
    by simp
qed

theorem nonfinite_angle_takes_fallback_witness:
  "phase_rotation exact [[Some 0, Some 0, Some 0], [None, None, None], [Some 1, Some 0, Some 1]] True
     = Inr ([[Some 0, Some 0, Some 0], [None, None, None], [Some 1, Some 0, Some 1]], False)
   \<and> lagrange_roots module_globals exact [Some 0, Some 1] [Some 0, Some 1] [Some 1, Some 0] True
     = Inl (NameError ''warnings'')"
  using nonfinite_angle_takes_fallback [of "[Some 0, Some 1]" "[Some 0, Some 1]" "[Some 1, Some 0]"
          exact "[[Some 0, Some 0, Some 0], [None, None, None], [Some 1, Some 0, Some 1]]"
          "[[Some 0, Some 0, Some 0], [Some 0, Some 1, Some 0], [Some 0, Some 0, Some 1]]"
          "[Some 1, Some 0]" None True module_globals]
  by (simp add: pencil_nan_entry index2_def exact_simps fallback_path_unbound)

section \<open>The Givens rotation\<close>

lemma dot_exact:
  "dot exact (map Some xs) (map Some ys) = Some (sum_list (map (\<lambda>(x, y). x * y) (zip xs ys)))"
proof -
  have "foldr (\<lambda>(a, b) acc. lift2 (+) (lift2 (*) a b) acc) (zip (map Some xs) (map Some ys)) (Some 0)
        = Some (sum_list (map (\<lambda>(x, y). x * y) (zip xs ys)))"
  proof (induction xs arbitrary: ys)
    case Nil
    show ?case by simp
  next
    case (Cons x xs)
    then show ?case by (cases ys) simp_all
  qed
  then show ?thesis
    by (simp add: dot_def exact_simps)
qed

lemma sum_list_zero_row:
  fixes ys :: "complex list"
  shows "sum_list (map (\<lambda>(x, y). x * y) (zip (map (\<lambda>_. 0) js) ys)) = 0"
  by (induction js arbitrary: ys) (simp, case_tac ys, simp_all)

lemma upt_two: "2 \<le> n \<Longrightarrow> [0 ..< n] = 0 # 1 # [2 ..< n]"
  by (simp add: upt_rec numeral_2_eq_2)

lemma givens_exact:
  fixes H :: "complex matrix"
  assumes sq: "is_square n H" and n: "2 \<le> n"
  defines "a \<equiv> H ! 0 ! 0" and "b \<equiv> H ! 1 ! 0"
  assumes r: "csqrt (a * a + b * b) \<noteq> 0"
  shows "givens exact n (map (map Some) H) =
           Inr (set_topleft (np_eye exact n)
                  [[Some (cnj (a / csqrt (a * a + b * b))), Some (cnj (b / csqrt (a * a + b * b)))],
                   [Some (- (b / csqrt (a * a + b * b))), Some (a / csqrt (a * a + b * b))]])"
proof -
  from sq n have l: "length H = n" "length (H ! 0) = n" "length (H ! 1) = n"
    by (simp_all add: is_square_def list_all_length)
  with n have i: "index2 (map (map Some) H) 0 0 = Inr (Some a)"
                 "index2 (map (map Some) H) (Suc 0) 0 = Inr (Some b)"
    by (simp_all add: index2_def a_def b_def)
  show ?thesis
    using r by (simp add: givens_def i exact_simps Let_def)
qed

lemma givens_row:
  assumes n: "2 \<le> n"
  shows "set_topleft (np_eye exact n) [[Some p, Some q], [Some s, Some c]] ! 1 =
         map Some (s # c # map (\<lambda>_. 0) [2 ..< n])"
proof -
  have "map (\<lambda>j. if j < 2 then [[Some p, Some q], [Some s, Some c]] ! 1 ! j
                   else np_eye exact n ! 1 ! j) [2 ..< n] =
        map (\<lambda>_. Some 0) [2 ..< n]"
    using n by (auto simp add: np_eye_def exact_simps)
  then show ?thesis
    using n by (simp add: set_topleft_def np_eye_def upt_two [of n] comp_def)
qed

lemma column_exact:
  fixes H :: "complex matrix"
  shows "list_all (\<lambda>row. j < length row) H \<Longrightarrow>
         map (\<lambda>row. row ! j) (map (map Some) H) = map Some (map (\<lambda>row. row ! j) H)"
  by (induction H) simp_all

lemma givens_zero_entry:
  fixes H :: "complex matrix"
  assumes sq: "is_square n H" and n: "2 \<le> n"
    and r: "csqrt ((H ! 0 ! 0)\<^sup>2 + (H ! 1 ! 0)\<^sup>2) \<noteq> 0"
  shows "bindE (givens exact n (map (map Some) H))
           (\<lambda>G5. index2 (matmul exact G5 (map (map Some) H)) 1 0) = Inr (Some 0)"
proof -
  define a where "a = H ! 0 ! 0"
  define b where "b = H ! 1 ! 0"
  define d where "d = csqrt (a * a + b * b)"
  from r have d: "d \<noteq> 0"
    by (simp add: d_def a_def b_def power2_eq_square)
  from sq n obtain r0 r1 rest where H: "H = r0 # r1 # rest"
    by (cases H; cases "tl H") (auto simp add: is_square_def)
  from sq n have rows: "list_all (\<lambda>row. 0 < length row) H"
    by (auto simp add: is_square_def list_all_iff)
  have col: "map (\<lambda>row. row ! 0) (map (map Some) H) =
             map Some (a # b # map (\<lambda>row. row ! 0) rest)"
    unfolding column_exact [OF rows] by (simp add: H a_def b_def)
  have g: "givens exact n (map (map Some) H) =
             Inr (set_topleft (np_eye exact n)
                    [[Some (cnj (a / d)), Some (cnj (b / d))], [Some (- (b / d)), Some (a / d)]])"
    using givens_exact [OF sq n] d by (simp add: a_def b_def d_def)
  have z: "dot exact (map Some (- (b / d) # a / d # map (\<lambda>_. 0) [2 ..< n]))
          (map Some (a # b # map (\<lambda>row. row ! 0) rest)) = Some 0"
    unfolding dot_exact using d by (simp add: sum_list_zero_row)
  have i: "\<And>G5. length G5 = n \<Longrightarrow>
             index2 (matmul exact G5 (map (map Some) H)) 1 0 =
             Inr (dot exact (G5 ! 1) (map (\<lambda>row. row ! 0) (map (map Some) H)))"
    using n by (intro index2_matmul) simp_all
  show ?thesis
    unfolding g bindE_simps
    by (subst i, simp, simp only: givens_row [OF n] col z)
qed

lemma is_square_mat_of: "is_square n (mat_of n f)"
  by (simp add: is_square_def mat_of_def list_all_iff)

lemma set_topleft_entry:
  "i < length M \<Longrightarrow> j < length M \<Longrightarrow>
   set_topleft M B ! i ! j = (if i < 2 \<and> j < 2 then B ! i ! j else M ! i ! j)"
  by (simp add: set_topleft_def)

lemma np_eye_entry:
  "i < n \<Longrightarrow> j < n \<Longrightarrow> np_eye np n ! i ! j = (if i = j then c_lit np 1 else c_lit np 0)"
  by (simp add: np_eye_def)

lemma givens_matrix_entries:
  fixes p q s c :: complex
  assumes n: "2 \<le> n"
  defines "G \<equiv> set_topleft (np_eye exact n) [[Some p, Some q], [Some s, Some c]]"
  shows "is_square n G"
    and "G ! 0 ! 0 = Some p" and "G ! 0 ! 1 = Some q"
    and "G ! 1 ! 0 = Some s" and "G ! 1 ! 1 = Some c"
    and "\<forall>i<n. \<forall>j<n. 2 \<le> i \<or> 2 \<le> j \<longrightarrow> G ! i ! j = Some (if i = j then 1 else 0)"
proof -
  show "is_square n G"
    by (simp add: G_def set_topleft_def is_square_mat_of)
  from n have "0 < n" "1 < n"
    by simp_all
  then show "G ! 0 ! 0 = Some p" "G ! 0 ! 1 = Some q" "G ! 1 ! 0 = Some s" "G ! 1 ! 1 = Some c"
    by (simp_all add: G_def set_topleft_entry)
  show "\<forall>i<n. \<forall>j<n. 2 \<le> i \<or> 2 \<le> j \<longrightarrow> G ! i ! j = Some (if i = j then 1 else 0)"
    by (auto simp add: G_def set_topleft_entry np_eye_entry exact_simps)
qed

lemma list_two: "length xs = 2 \<Longrightarrow> xs = [xs ! 0, xs ! 1]"
  by (rule nth_equalityI) (auto simp add: less_Suc_eq numeral_2_eq_2)

lemma square_two:
  assumes "is_square 2 G"
  shows "G = [[G ! 0 ! 0, G ! 0 ! 1], [G ! 1 ! 0, G ! 1 ! 1]]"
proof -
  from assms have l: "length G = 2" "length (G ! 0) = 2" "length (G ! 1) = 2"
    by (simp_all add: is_square_def list_all_length)
  from list_two [OF l(1)] list_two [OF l(2)] list_two [OF l(3)] show ?thesis
    by simp
qed

text \<open>
  C9.  In exact arithmetic, for an n x n matrix \<open>H\<close> with \<open>n \<ge> 2\<close>, \<open>a = H[0,0]\<close>,
  \<open>b = H[1,0]\<close> and \<open>r = sqrt(a^2 + b^2)\<close> nonzero, the matrix \<open>G5\<close> the code builds is the
  n x n identity with the block \<open>[[conj(a/r), conj(b/r)], [-b/r, a/r]]\<close> on rows and
  columns 0 and 1, and applied on the left of \<open>H\<close> it gives a matrix whose entry (1,0) is
  exactly zero.
\<close>

theorem givens_annihilates:
  fixes H :: "complex matrix"
  assumes sq: "is_square n H" and n: "2 \<le> n"
    and r: "csqrt ((H ! 0 ! 0)\<^sup>2 + (H ! 1 ! 0)\<^sup>2) \<noteq> 0"
  shows "(\<exists>G5. givens exact n (map (map Some) H) = Inr G5
            \<and> is_square n G5
            \<and> G5 ! 0 ! 0 = Some (cnj (H ! 0 ! 0 / csqrt ((H ! 0 ! 0)\<^sup>2 + (H ! 1 ! 0)\<^sup>2)))
            \<and> G5 ! 0 ! 1 = Some (cnj (H ! 1 ! 0 / csqrt ((H ! 0 ! 0)\<^sup>2 + (H ! 1 ! 0)\<^sup>2)))
            \<and> G5 ! 1 ! 0 = Some (- (H ! 1 ! 0 / csqrt ((H ! 0 ! 0)\<^sup>2 + (H ! 1 ! 0)\<^sup>2)))
            \<and> G5 ! 1 ! 1 = Some (H ! 0 ! 0 / csqrt ((H ! 0 ! 0)\<^sup>2 + (H ! 1 ! 0)\<^sup>2))
            \<and> (\<forall>i<n. \<forall>j<n. 2 \<le> i \<or> 2 \<le> j \<longrightarrow> G5 ! i ! j = Some (if i = j then 1 else 0))
            \<and> index2 (matmul exact G5 (map (map Some) H)) 1 0 = Inr (Some 0))
       \<and> bindE (givens exact n (map (map Some) H))
            (\<lambda>G5. index2 (matmul exact G5 (map (map Some) H)) 1 0) = Inr (Some 0)"
proof -
  define a where "a = H ! 0 ! 0"
  define b where "b = H ! 1 ! 0"
  define d where "d = csqrt (a\<^sup>2 + b\<^sup>2)"
  define G where "G = set_topleft (np_eye exact n)
                        [[Some (cnj (a / d)), Some (cnj (b / d))], [Some (- (b / d)), Some (a / d)]]"
  from r have r': "csqrt (H ! 0 ! 0 * H ! 0 ! 0 + H ! 1 ! 0 * H ! 1 ! 0) \<noteq> 0"
    by (simp add: power2_eq_square)
  have g: "givens exact n (map (map Some) H) = Inr G"
    using givens_exact [OF sq n r'] by (simp add: G_def a_def b_def d_def power2_eq_square)
  have z: "bindE (givens exact n (map (map Some) H))
             (\<lambda>G5. index2 (matmul exact G5 (map (map Some) H)) 1 0) = Inr (Some 0)"
    using sq n r by (rule givens_zero_entry)
  then have z': "index2 (matmul exact G (map (map Some) H)) 1 0 = Inr (Some 0)"
    by (simp add: g)
  note e = givens_matrix_entries [OF n, of "cnj (a / d)" "cnj (b / d)" "- (b / d)" "a / d",
             folded G_def]
  have "givens exact n (map (map Some) H) = Inr G
          \<and> is_square n G
          \<and> G ! 0 ! 0 = Some (cnj (a / d)) \<and> G ! 0 ! 1 = Some (cnj (b / d))
          \<and> G ! 1 ! 0 = Some (- (b / d)) \<and> G ! 1 ! 1 = Some (a / d)
          \<and> (\<forall>i<n. \<forall>j<n. 2 \<le> i \<or> 2 \<le> j \<longrightarrow> G ! i ! j = Some (if i = j then 1 else 0))
          \<and> index2 (matmul exact G (map (map Some) H)) 1 0 = Inr (Some 0)"
    using g e z' by blast
  then show ?thesis
    unfolding a_def b_def d_def using z by blast
qed

theorem givens_annihilates_witness:
  "givens exact 2 [[Some 3, Some 1], [Some 4, Some 2]] =
     Inr [[Some (3 / 5), Some (4 / 5)], [Some (- (4 / 5)), Some (3 / 5)]]
   \<and> bindE (givens exact 2 [[Some 3, Some 1], [Some 4, Some 2]])
       (\<lambda>G5. index2 (matmul exact G5 [[Some 3, Some 1], [Some 4, Some 2]]) 1 0) = Inr (Some 0)"
proof -
  have "sqrt 25 = 5"
    by (rule real_sqrt_unique) simp_all
  then have c: "csqrt (3\<^sup>2 + 4\<^sup>2) = 5"
    by simp
  have h: "csqrt (([[3, 1], [4, 2]] ! 0 ! 0)\<^sup>2 + ([[3, 1], [4, 2]] ! 1 ! 0 :: complex)\<^sup>2) \<noteq> 0"
    by simp
  have s: "is_square 2 [[3, 1], [4, 2 :: complex]]"
    by (simp add: is_square_def)
  from givens_annihilates [OF s order_refl h] obtain G5 where
    g: "givens exact 2 [[Some 3, Some 1], [Some 4, Some 2]] = Inr G5" and q: "is_square 2 G5"
    and e: "G5 ! 0 ! 0 = Some (3 / 5)" "G5 ! 0 ! 1 = Some (4 / 5)"
           "G5 ! 1 ! 0 = Some (- (4 / 5))" "G5 ! 1 ! 1 = Some (3 / 5)"
    and z: "bindE (givens exact 2 [[Some 3, Some 1], [Some 4, Some 2]])
              (\<lambda>G5. index2 (matmul exact G5 [[Some 3, Some 1], [Some 4, Some 2]]) 1 0) = Inr (Some 0)"
    by (auto simp add: c)
  from square_two [OF q] e have "G5 = [[Some (3 / 5), Some (4 / 5)], [Some (- (4 / 5)), Some (3 / 5)]]"
    by simp
  with g z show ?thesis
    by simp
qed

end
